theory Spec2Isabelle
  imports Complex_Main
begin

section \<open>JavaScript values\<close>

text \<open>
  The values a parsed JSON field can hold. A JavaScript number is modelled as a real:
  the finite doubles, with exact arithmetic (IEEE rounding is not modelled).
  \<open>JUndefined\<close> is what reading an absent property gives.
\<close>

datatype js_value =
    JUndefined
  | JNull
  | JBool bool
  | JNumber real
  | JString string
  | JArray "js_value list"
  | JObject "(string \<times> js_value) list"

text \<open>The result of a numeric conversion: \<open>NaN\<close> or a finite number.\<close>

datatype js_num = NaN | Num real

text \<open>
  The built-in conversions between strings and numbers are not code of this repository;
  they are taken as parameters: \<open>parseFloat s\<close>, \<open>Number(s)\<close> on a string and
  \<open>String(n)\<close> on a number.
\<close>

record js_builtins =
  parseFloat :: "string \<Rightarrow> js_num"
  stringToNumber :: "string \<Rightarrow> js_num"
  numberToString :: "real \<Rightarrow> string"

text \<open>\<open>typeof v === "number"\<close>, with the number when it holds.\<close>

fun as_number :: "js_value \<Rightarrow> real option" where
  "as_number (JNumber r) = Some r"
| "as_number _ = None"

section \<open>shopifyClient.js: the request executor\<close>

definition MAX_RETRIES :: nat where
  "MAX_RETRIES = 5"

definition INITIAL_BACKOFF_MS :: real where
  "INITIAL_BACKOFF_MS = 1000"

definition LOW_CREDITS_THRESHOLD :: real where
  "LOW_CREDITS_THRESHOLD = 50"

subsection \<open>Responses and failures of the transport\<close>

text \<open>\<open>data.extensions.cost\<close> and its \<open>throttleStatus\<close> block.\<close>

record throttle_status =
  ts_maximumAvailable :: js_value
  ts_currentlyAvailable :: js_value
  ts_restoreRate :: js_value

record cost =
  cost_requestedQueryCost :: js_value
  cost_actualQueryCost :: js_value
  cost_throttleStatus :: "throttle_status option"

text \<open>
  The body of a successful transport response: a GraphQL response object.
  \<open>resp_errors\<close> is \<open>data.errors\<close> (absent, or an array), \<open>resp_cost\<close> is
  \<open>data?.extensions?.cost\<close> (\<open>None\<close> when \<open>extensions\<close> or \<open>cost\<close> is absent or null),
  \<open>resp_data\<close> is \<open>data.data\<close>.
\<close>

record 'd gql_response =
  resp_errors :: "js_value list option"
  resp_cost :: "cost option"
  resp_data :: "'d option"

text \<open>\<open>err.response\<close> of a rejected request: status, headers (lower-case names), body.\<close>

record error_response =
  status :: int
  headers :: "(string \<times> string) list option"
  body :: js_value

text \<open>
  What a \<open>throw\<close> carries: the error the HTTP client rejected with (its message, and its
  \<open>response\<close> when the server answered), or a plain \<open>new Error(message)\<close>.
\<close>

datatype exn =
    AxiosError string "error_response option"
  | Error string

fun message :: "exn \<Rightarrow> string" where
  "message (AxiosError m r) = m"
| "message (Error m) = m"

fun response :: "exn \<Rightarrow> error_response option" where
  "response (AxiosError m r) = r"
| "response (Error m) = None"

datatype 'd post_result =
    Resolved "'d gql_response"
  | Rejected exn

text \<open>
  The remote endpoint as the client sees it: the outcome of the \<open>n\<close>-th request of the
  run (counting from 0), given the request. What the program does is recorded as a
  trace of events: a request sent, a suspension of so many milliseconds, an outcome line
  written by the orchestrator.
\<close>

type_synonym ('q, 'd) remote = "nat \<Rightarrow> 'q \<Rightarrow> 'd post_result"

datatype ('q, 'l) event = Post 'q | Sleep real | Log 'l

fun is_Post :: "('q, 'l) event \<Rightarrow> bool" where
  "is_Post (Post q) = True"
| "is_Post _ = False"


text \<open>The number of requests sent so far.\<close>

definition sent :: "('q, 'l) event list \<Rightarrow> nat" where
  "sent tr = length (filter is_Post tr)"

subsection \<open>Proactive pacing\<close>

record throttle_info =
  requestedQueryCost :: js_value
  actualQueryCost :: js_value
  maximumAvailable :: js_value
  currentlyAvailable :: js_value
  restoreRate :: js_value

text \<open>An absent \<open>throttleStatus\<close> is replaced by \<open>{}\<close>: every field of it reads undefined.\<close>

definition extractThrottleInfo :: "'d gql_response \<Rightarrow> throttle_info option" where
  "extractThrottleInfo data =
     (case resp_cost data of
        None \<Rightarrow> None
      | Some c \<Rightarrow>
          (let throttle = (case cost_throttleStatus c of
                             Some t \<Rightarrow> t
                           | None \<Rightarrow> \<lparr>ts_maximumAvailable = JUndefined,
                                       ts_currentlyAvailable = JUndefined,
                                       ts_restoreRate = JUndefined\<rparr>)
           in Some \<lparr>requestedQueryCost = cost_requestedQueryCost c,
                    actualQueryCost = cost_actualQueryCost c,
                    maximumAvailable = ts_maximumAvailable throttle,
                    currentlyAvailable = ts_currentlyAvailable throttle,
                    restoreRate = ts_restoreRate throttle\<rparr>))"

text \<open>The events \<open>applyPreemptiveThrottleWait\<close> performs: one suspension, or nothing.\<close>

definition applyPreemptiveThrottleWait :: "throttle_info option \<Rightarrow> ('q, 'l) event list" where
  "applyPreemptiveThrottleWait throttleInfo =
     (case throttleInfo of
        None \<Rightarrow> []
      | Some ti \<Rightarrow>
          (case as_number (currentlyAvailable ti) of
             None \<Rightarrow> []
           | Some ca \<Rightarrow>
               (case as_number (restoreRate ti) of
                  None \<Rightarrow> []
                | Some rr \<Rightarrow>
                    if ca < LOW_CREDITS_THRESHOLD then
                      (let desired = LOW_CREDITS_THRESHOLD * 2;
                           deficit = max 0 (desired - ca)
                       in if deficit > 0 \<and> rr > 0 then
                            (let secondsNeeded = deficit / rr;
                                 waitMs = real_of_int \<lceil>secondsNeeded * 1000\<rceil>
                             in [Sleep waitMs])
                          else [])
                    else [])))"

subsection \<open>Retry with backoff\<close>

text \<open>\<open>data.errors && data.errors.length > 0\<close>\<close>

definition has_errors :: "'d gql_response \<Rightarrow> bool" where
  "has_errors data = (case resp_errors data of None \<Rightarrow> False | Some es \<Rightarrow> length es > 0)"

text \<open>\<open>err.response?.status\<close>\<close>

definition status_of :: "exn \<Rightarrow> int option" where
  "status_of err = map_option status (response err)"

text \<open>\<open>err.response.headers?.["retry-after"]\<close>\<close>

definition retryAfterHeader :: "exn \<Rightarrow> string option" where
  "retryAfterHeader err =
     (case response err of
        None \<Rightarrow> None
      | Some r \<Rightarrow> (case headers r of None \<Rightarrow> None | Some hs \<Rightarrow> map_of hs ''retry-after''))"

text \<open>
  The wait before a retry: the current backoff, raised to the server's suggestion when the
  header is a non-empty string that \<open>parseFloat\<close> reads as a number.
\<close>

definition retryAfterMs :: "js_builtins \<Rightarrow> real \<Rightarrow> exn \<Rightarrow> real" where
  "retryAfterMs B backoffMs err =
     (case retryAfterHeader err of
        None \<Rightarrow> backoffMs
      | Some h \<Rightarrow>
          if h = [] then backoffMs
          else (case parseFloat B h of
                  NaN \<Rightarrow> backoffMs
                | Num retrySeconds \<Rightarrow> max backoffMs (retrySeconds * 1000)))"

text \<open>
  The \<open>while (attempt <= MAX_RETRIES)\<close> loop of \<open>callShopifyGraphQL\<close>, from the values of
  \<open>attempt\<close> and \<open>backoffMs\<close> at the loop head; \<open>attempt + 1\<close> is the value the body
  works with after its \<open>attempt += 1\<close>. The result is the returned body (\<open>Inr\<close>) or the
  thrown error (\<open>Inl\<close>), with the trace extended by what was done.
\<close>

function callShopifyGraphQL_loop ::
  "js_builtins \<Rightarrow> ('q, 'd) remote \<Rightarrow> 'q \<Rightarrow> nat \<Rightarrow> real \<Rightarrow> ('q, 'l) event list
     \<Rightarrow> (exn + 'd gql_response) \<times> ('q, 'l) event list" where
  "callShopifyGraphQL_loop B client q attempt backoffMs tr =
     (if attempt \<le> MAX_RETRIES then
        (case client (sent tr) q of
           Resolved data \<Rightarrow>
             if has_errors data then (Inr data, tr @ [Post q])
             else (case extractThrottleInfo data of
                     None \<Rightarrow> (Inr data, tr @ [Post q])
                   | Some throttleInfo \<Rightarrow>
                       (Inr data, tr @ [Post q] @ applyPreemptiveThrottleWait (Some throttleInfo)))
         | Rejected err \<Rightarrow>
             if status_of err = Some 429 then
               (if attempt + 1 > MAX_RETRIES then (Inl err, tr @ [Post q])
                else callShopifyGraphQL_loop B client q (attempt + 1) (backoffMs * 2)
                       (tr @ [Post q, Sleep (retryAfterMs B backoffMs err)]))
             else (Inl err, tr @ [Post q]))
      else (Inl (Error ''Unexpected state in callShopifyGraphQL retry loop.''), tr))"
  by pat_completeness auto
termination
  by (relation "measure (\<lambda>(B, client, q, attempt, backoffMs, tr). MAX_RETRIES + 1 - attempt)")
     (auto simp: MAX_RETRIES_def)

declare callShopifyGraphQL_loop.simps [simp del]

definition callShopifyGraphQL ::
  "js_builtins \<Rightarrow> ('q, 'd) remote \<Rightarrow> 'q \<Rightarrow> ('q, 'l) event list
     \<Rightarrow> (exn + 'd gql_response) \<times> ('q, 'l) event list" where
  "callShopifyGraphQL B client q tr = callShopifyGraphQL_loop B client q 0 INITIAL_BACKOFF_MS tr"

subsection \<open>The gateway operations\<close>

text \<open>What the three queries select from the remote schema.\<close>

record variant_node =
  v_id :: string
  v_sku :: "string option"
  v_title :: string
  v_inventoryItem_id :: "string option"

text \<open>
  \<open>p_variants_nodes\<close> is \<open>product.variants.nodes\<close>, \<open>None\<close> when \<open>variants\<close> or
  \<open>nodes\<close> is absent.
\<close>

record product =
  p_id :: string
  p_handle :: string
  p_title :: string
  p_variants_nodes :: "variant_node list option"

record product_set_payload =
  ps_product :: "product option"
  ps_userErrors :: "js_value list option"

record inventory_set_payload =
  inv_userErrors :: "js_value list option"
  inv_inventoryAdjustmentGroup :: js_value

text \<open>\<open>data.data\<close> of a response: one field per operation, absent or null as \<open>None\<close>.\<close>

record gql_data =
  productByHandle :: "product option"
  productSet :: "product_set_payload option"
  inventorySetQuantities :: "inventory_set_payload option"

section \<open>productSync.js: payload construction\<close>

subsection \<open>Spreadsheet rows\<close>

text \<open>
  A cell of a parsed sheet is a string, a number or a boolean; a blank cell is the empty
  string, and reading a column the sheet does not have gives undefined. A row maps
  column names to cells. Strings are lists of 8-bit characters (ASCII text).
\<close>

datatype cell = CUndefined | CString string | CNumber real | CBool bool

type_synonym row = "(string \<times> cell) list"

definition cell_of :: "row \<Rightarrow> string \<Rightarrow> cell" where
  "cell_of r k = (case map_of r k of Some c \<Rightarrow> c | None \<Rightarrow> CUndefined)"

fun truthy :: "cell \<Rightarrow> bool" where
  "truthy CUndefined = False"
| "truthy (CString s) = (s \<noteq> [])"
| "truthy (CNumber n) = (n \<noteq> 0)"
| "truthy (CBool b) = b"

text \<open>\<open>String(c)\<close>\<close>

fun String_of :: "js_builtins \<Rightarrow> cell \<Rightarrow> string" where
  "String_of B CUndefined = ''undefined''"
| "String_of B (CString s) = s"
| "String_of B (CNumber n) = numberToString B n"
| "String_of B (CBool b) = (if b then ''true'' else ''false'')"

text \<open>\<open>String(c || "")\<close>\<close>

definition String_or_empty :: "js_builtins \<Rightarrow> cell \<Rightarrow> string" where
  "String_or_empty B c = (if truthy c then String_of B c else [])"

text \<open>\<open>Number(c)\<close>\<close>

fun Number_of :: "js_builtins \<Rightarrow> cell \<Rightarrow> js_num" where
  "Number_of B CUndefined = NaN"
| "Number_of B (CString s) = stringToNumber B s"
| "Number_of B (CNumber n) = Num n"
| "Number_of B (CBool b) = Num (if b then 1 else 0)"

text \<open>\<open>c !== undefined && c !== ""\<close>\<close>

definition filled :: "cell \<Rightarrow> bool" where
  "filled c = (c \<noteq> CUndefined \<and> c \<noteq> CString [])"

definition is_space :: "char \<Rightarrow> bool" where
  "is_space c = (c \<in> set [CHR '' '', CHR 0x09, CHR 0x0A, CHR 0x0B, CHR 0x0C, CHR 0x0D])"

definition trim :: "string \<Rightarrow> string" where
  "trim s = rev (dropWhile is_space (rev (dropWhile is_space s)))"

definition toUpperCase :: "string \<Rightarrow> string" where
  "toUpperCase s =
     map (\<lambda>c. let n = (of_char c :: nat)
              in if of_char CHR ''a'' \<le> n \<and> n \<le> of_char CHR ''z'' then char_of (n - 32) else c) s"

text \<open>\<open>s.split(d)\<close> for a one-character separator.\<close>

fun split :: "char \<Rightarrow> string \<Rightarrow> string list" where
  "split d [] = [[]]"
| "split d (c # cs) =
     (if c = d then [] # split d cs
      else (case split d cs of [] \<Rightarrow> [[c]] | w # ws \<Rightarrow> (c # w) # ws))"

text \<open>\<open>Array.from(new Set(xs))\<close>: the first occurrence of each element, in order.\<close>

fun array_from_set :: "'a list \<Rightarrow> 'a list" where
  "array_from_set [] = []"
| "array_from_set (x # xs) = x # array_from_set (filter (\<lambda>y. y \<noteq> x) xs)"

subsection \<open>buildProductSetInput\<close>

definition parseTags :: "js_builtins \<Rightarrow> cell \<Rightarrow> string list" where
  "parseTags B tagsString =
     (if \<not> truthy tagsString then []
      else filter (\<lambda>t. length t > 0) (map trim (split CHR '','' (String_of B tagsString))))"

definition mapStatus :: "js_builtins \<Rightarrow> cell \<Rightarrow> string" where
  "mapStatus B raw =
     (if \<not> truthy raw then ''ACTIVE''
      else (let s = toUpperCase (trim (String_of B raw))
            in if s \<in> set [''ACTIVE'', ''DRAFT'', ''ARCHIVED'', ''UNLISTED''] then s
               else ''ACTIVE''))"

record option_value =
  ov_optionName :: string
  ov_name :: string

record variant_input =
  vi_id :: "string option"
  vi_sku :: "string option"
  vi_price :: "js_num option"
  vi_compareAtPrice :: "js_num option"
  vi_optionValues :: "option_value list"
  vi_barcode :: "string option"
  vi_taxable :: "bool option"
  vi_inventoryItem_tracked :: bool

record product_option =
  po_name :: string
  po_values :: "string list"

record metafield_input =
  mf_namespace :: string
  mf_key :: string
  mf_type :: string
  mf_value :: string

record file_input =
  fi_originalSource :: string
  fi_filename :: string

record product_set_input =
  psi_title :: string
  psi_handle :: string
  psi_descriptionHtml :: string
  psi_productType :: "string option"
  psi_vendor :: "string option"
  psi_tags :: "string list"
  psi_status :: string
  psi_productOptions :: "product_option list"
  psi_variants :: "variant_input list"
  psi_metafields :: "metafield_input list option"
  psi_files :: "file_input list option"

text \<open>\<open>s || undefined\<close> for a string.\<close>

definition or_undefined :: "string \<Rightarrow> string option" where
  "or_undefined s = (if s = [] then None else Some s)"

text \<open>
  The index of the existing variants by SKU: a later variant with the same SKU replaces an
  earlier one; variants without a SKU are left out.
\<close>

definition existingVariantsBySku :: "product option \<Rightarrow> (string \<rightharpoonup> variant_node)" where
  "existingVariantsBySku existingProduct =
     (case existingProduct of
        None \<Rightarrow> Map.empty
      | Some p \<Rightarrow>
          (case p_variants_nodes p of
             None \<Rightarrow> Map.empty
           | Some nodes \<Rightarrow>
               fold (\<lambda>v m. case v_sku v of
                              None \<Rightarrow> m
                            | Some s \<Rightarrow> if s \<noteq> [] then m(s \<mapsto> v) else m)
                    nodes Map.empty))"

text \<open>
  The body of \<open>productRowsForHandle.map\<close>. The source also computes a local
  \<open>inventoryQuantities\<close> that it never puts into the result.
\<close>

definition variantInput :: "js_builtins \<Rightarrow> (string \<rightharpoonup> variant_node) \<Rightarrow> row \<Rightarrow> variant_input" where
  "variantInput B bySku row =
     (let sku = trim (String_or_empty B (cell_of row ''VariantSKU''));
          variantTitle = trim (String_or_empty B (cell_of row ''VariantTitle''));
          priceRaw = cell_of row ''VariantPrice'';
          compareAtRaw = cell_of row ''VariantCompareAtPrice'';
          existing = (if sku \<noteq> [] then bySku sku else None)
      in \<lparr>vi_id = (case existing of
                     None \<Rightarrow> None
                   | Some v \<Rightarrow> if v_id v \<noteq> [] then Some (v_id v) else None),
          vi_sku = or_undefined sku,
          vi_price = (if filled priceRaw then Some (Number_of B priceRaw) else None),
          vi_compareAtPrice =
            (if filled compareAtRaw then Some (Number_of B compareAtRaw) else None),
          vi_optionValues =
            (if variantTitle \<noteq> []
             then [\<lparr>ov_optionName = ''Title'', ov_name = variantTitle\<rparr>] else []),
          vi_barcode =
            (if truthy (cell_of row ''VariantBarcode'')
             then Some (String_of B (cell_of row ''VariantBarcode'')) else None),
          vi_taxable =
            (if toUpperCase (trim (String_or_empty B (cell_of row ''VariantTaxable''))) = ''TRUE''
             then Some True else None),
          vi_inventoryItem_tracked = True\<rparr>)"

definition fileInput :: "js_builtins \<Rightarrow> row \<Rightarrow> file_input option" where
  "fileInput B img =
     (let src = trim (String_or_empty B (cell_of img ''ImageSrc''))
      in if src = [] then None
         else (let urlParts = split CHR ''/'' src;
                   lastPart = last urlParts;
                   filename = (if lastPart = [] then ''image.jpg'' else lastPart)
               in Some \<lparr>fi_originalSource = src, fi_filename = filename\<rparr>))"

definition metafieldInput :: "js_builtins \<Rightarrow> row \<Rightarrow> metafield_input" where
  "metafieldInput B m =
     \<lparr>mf_namespace = trim (String_or_empty B (cell_of m ''Namespace'')),
      mf_key = trim (String_or_empty B (cell_of m ''Key'')),
      mf_type = trim (String_or_empty B (cell_of m ''Type'')),
      mf_value = String_or_empty B (cell_of m ''Value'')\<rparr>"

text \<open>
  Reading a field of \<open>productRowsForHandle[0]\<close> throws a TypeError when the list of rows
  is empty.
\<close>

definition buildProductSetInput ::
  "js_builtins \<Rightarrow> string \<Rightarrow> row list \<Rightarrow> product option \<Rightarrow> row list \<Rightarrow> row list
     \<Rightarrow> exn + product_set_input" where
  "buildProductSetInput B handle productRowsForHandle existingProduct imagesForHandle
       metafieldsForHandle =
     (case productRowsForHandle of
        [] \<Rightarrow> Inl (Error ''TypeError: Cannot read properties of undefined'')
      | firstRow # _ \<Rightarrow>
          (let title = trim (String_or_empty B (cell_of firstRow ''ProductTitle''));
               descriptionHtml = String_or_empty B (cell_of firstRow ''ProductDescriptionHtml'');
               productType = trim (String_or_empty B (cell_of firstRow ''ProductType''));
               vendor = trim (String_or_empty B (cell_of firstRow ''Vendor''));
               tags = parseTags B (cell_of firstRow ''Tags'');
               status = mapStatus B (cell_of firstRow ''Status'');
               uniqueVariantTitles =
                 array_from_set
                   (filter (\<lambda>v. length v > 0)
                      (map (\<lambda>r. trim (String_or_empty B (cell_of r ''VariantTitle'')))
                         productRowsForHandle));
               productOptions =
                 (if length uniqueVariantTitles > 0
                  then [\<lparr>po_name = ''Title'', po_values = uniqueVariantTitles\<rparr>] else []);
               existingVariantsBySku = existingVariantsBySku existingProduct;
               variants = map (variantInput B existingVariantsBySku) productRowsForHandle;
               metafields = map (metafieldInput B) metafieldsForHandle;
               files = List.map_filter (fileInput B) imagesForHandle
           in Inr \<lparr>psi_title = title,
                   psi_handle = handle,
                   psi_descriptionHtml = descriptionHtml,
                   psi_productType = or_undefined productType,
                   psi_vendor = or_undefined vendor,
                   psi_tags = tags,
                   psi_status = status,
                   psi_productOptions = productOptions,
                   psi_variants = variants,
                   psi_metafields = (if length metafields > 0 then Some metafields else None),
                   psi_files = (if length files > 0 then Some files else None)\<rparr>))"

section \<open>The requests of the run\<close>

record quantity_line =
  ql_inventoryItemId :: string
  ql_locationId :: string
  ql_quantity :: real

record inventory_set_input =
  isi_name :: string
  isi_reason :: string
  isi_ignoreCompareQuantity :: bool
  isi_quantities :: "quantity_line list"

text \<open>
  A request is one of the three GraphQL documents with its variables: the lookup by
  handle, the upsert (\<open>identifier.handle\<close> and \<open>input\<close>), the inventory write.
\<close>

datatype request =
    PRODUCT_BY_HANDLE_QUERY string
  | PRODUCT_SET_MUTATION string product_set_input
  | INVENTORY_SET_QUANTITIES_MUTATION inventory_set_input


text \<open>The requests of a trace, in the order they were sent.\<close>

fun requests :: "('q, 'l) event list \<Rightarrow> 'q list" where
  "requests [] = []"
| "requests (Post q # tr) = q # requests tr"
| "requests (e # tr) = requests tr"

definition fetchProductByHandle ::
  "js_builtins \<Rightarrow> (request, gql_data) remote \<Rightarrow> string \<Rightarrow> (request, 'l) event list
     \<Rightarrow> (exn + product option) \<times> (request, 'l) event list" where
  "fetchProductByHandle B client handle tr =
     (case callShopifyGraphQL B client (PRODUCT_BY_HANDLE_QUERY handle) tr of
        (Inl err, tr') \<Rightarrow> (Inl err, tr')
      | (Inr data, tr') \<Rightarrow>
          (Inr (case resp_data data of None \<Rightarrow> None | Some d \<Rightarrow> productByHandle d), tr'))"

definition setInventoryQuantities ::
  "js_builtins \<Rightarrow> (request, gql_data) remote \<Rightarrow> inventory_set_input
     \<Rightarrow> (request, 'l) event list
     \<Rightarrow> (exn + inventory_set_payload option) \<times> (request, 'l) event list" where
  "setInventoryQuantities B client input tr =
     (case callShopifyGraphQL B client (INVENTORY_SET_QUANTITIES_MUTATION input) tr of
        (Inl err, tr') \<Rightarrow> (Inl err, tr')
      | (Inr data, tr') \<Rightarrow>
          (Inr (case resp_data data of None \<Rightarrow> None | Some d \<Rightarrow> inventorySetQuantities d),
           tr'))"

section \<open>productSync.js: the orchestrator\<close>

text \<open>What \<open>getConfig()\<close> returns.\<close>

record config =
  storeDomain :: string
  accessToken :: string
  apiVersion :: string
  defaultLocationId :: string

text \<open>
  The logger is not part of the sources, and its calls do not change the control flow.
  The lines by which the orchestrator reports what became of a record are kept as events;
  the other lines (progress, cost figures, warnings) are left out.
\<close>

datatype sync_log =
    DryRunWouldUpsert string nat nat nat
  | NoPayload string
  | UserErrors string "js_value list"
  | Upserted string product
  | NoProductReturned string
  | FailedToUpsert string string

subsection \<open>syncInventoryForProduct\<close>

text \<open>Inventory item identifiers by SKU, from the variants that have both.\<close>

definition inventoryItemIdBySku :: "variant_node list \<Rightarrow> (string \<rightharpoonup> string)" where
  "inventoryItemIdBySku nodes =
     fold (\<lambda>v m. case v_sku v of
                    None \<Rightarrow> m
                  | Some s \<Rightarrow>
                      (case v_inventoryItem_id v of
                         None \<Rightarrow> m
                       | Some i \<Rightarrow> if s \<noteq> [] \<and> i \<noteq> [] then m(s \<mapsto> i) else m))
          nodes Map.empty"

text \<open>One pass of the loop over the rows: the line it pushes, if any.\<close>

definition quantityLine ::
  "config \<Rightarrow> js_builtins \<Rightarrow> (string \<rightharpoonup> string) \<Rightarrow> row \<Rightarrow> quantity_line option" where
  "quantityLine cfg B bySku row =
     (let sku = trim (String_or_empty B (cell_of row ''VariantSKU''));
          qtyRaw = cell_of row ''VariantInventoryQuantity''
      in if sku = [] then None
         else if \<not> filled qtyRaw then None
         else (case Number_of B qtyRaw of
                 NaN \<Rightarrow> None
               | Num qty \<Rightarrow>
                   (case bySku sku of
                      None \<Rightarrow> None
                    | Some invItemId \<Rightarrow>
                        Some \<lparr>ql_inventoryItemId = invItemId,
                              ql_locationId = defaultLocationId cfg,
                              ql_quantity = qty\<rparr>)))"

definition syncInventoryForProduct ::
  "config \<Rightarrow> js_builtins \<Rightarrow> (request, gql_data) remote \<Rightarrow> string \<Rightarrow> row list
     \<Rightarrow> (request, 'l) event list \<Rightarrow> (exn + unit) \<times> (request, 'l) event list" where
  "syncInventoryForProduct cfg B client handle productRowsForHandle tr =
     (if defaultLocationId cfg = [] then (Inr (), tr)
      else (case fetchProductByHandle B client handle tr of
              (Inl err, tr1) \<Rightarrow> (Inl err, tr1)
            | (Inr None, tr1) \<Rightarrow> (Inr (), tr1)
            | (Inr (Some product), tr1) \<Rightarrow>
                (let variants = (case p_variants_nodes product of None \<Rightarrow> [] | Some ns \<Rightarrow> ns);
                     quantities =
                       List.map_filter (quantityLine cfg B (inventoryItemIdBySku variants))
                         productRowsForHandle
                 in if length quantities = 0 then (Inr (), tr1)
                    else (case setInventoryQuantities B client
                                 \<lparr>isi_name = ''available'',
                                  isi_reason = ''correction'',
                                  isi_ignoreCompareQuantity = True,
                                  isi_quantities = quantities\<rparr> tr1 of
                            (Inl err, tr2) \<Rightarrow> (Inl err, tr2)
                          | (Inr payload, tr2) \<Rightarrow> (Inr (), tr2)))))"

subsection \<open>syncAllProductsFromExcel\<close>

text \<open>
  The \<open>try { ... } catch (e) { ... }\<close> block of the loop body: the upsert and, after it, the
  inventory synchronisation. Whatever is thrown inside is caught and reported, so the
  block only extends the trace. \<open>userErrors\<close> is \<open>payload.userErrors\<close>, empty when
  absent.
\<close>

definition upsert_block ::
  "config \<Rightarrow> js_builtins \<Rightarrow> (request, gql_data) remote \<Rightarrow> string \<Rightarrow> row list
     \<Rightarrow> product_set_input \<Rightarrow> (request, sync_log) event list
     \<Rightarrow> (request, sync_log) event list" where
  "upsert_block cfg B client handle productRowsForHandle productInput tr =
     (case callShopifyGraphQL B client (PRODUCT_SET_MUTATION handle productInput) tr of
        (Inl e, tr1) \<Rightarrow> tr1 @ [Log (FailedToUpsert handle (message e))]
      | (Inr data, tr1) \<Rightarrow>
          (case (case resp_data data of None \<Rightarrow> None | Some d \<Rightarrow> productSet d) of
             None \<Rightarrow> tr1 @ [Log (NoPayload handle)]
           | Some payload \<Rightarrow>
               (let userErrors = (case ps_userErrors payload of None \<Rightarrow> [] | Some es \<Rightarrow> es)
                in if length userErrors > 0
                   then tr1 @ [Log (UserErrors handle userErrors)]
                   else (case ps_product payload of
                           None \<Rightarrow> tr1 @ [Log (NoProductReturned handle)]
                         | Some product \<Rightarrow>
                             (case syncInventoryForProduct cfg B client handle
                                     productRowsForHandle
                                     (tr1 @ [Log (Upserted handle product)]) of
                                (Inl e, tr2) \<Rightarrow>
                                  tr2 @ [Log (FailedToUpsert handle (message e))]
                              | (Inr u, tr2) \<Rightarrow> tr2)))))"

text \<open>\<open>xs ? xs.length : 0\<close>\<close>

definition count :: "'a list option \<Rightarrow> nat" where
  "count xs = (case xs of None \<Rightarrow> 0 | Some ys \<Rightarrow> length ys)"

text \<open>
  The loop over \<open>productsByHandle.entries()\<close>, the entries in insertion order. The lookup
  and the construction of the payload stand before the \<open>try\<close> block: what they throw
  leaves the loop and the function.
\<close>

fun syncAllProductsFromExcel ::
  "config \<Rightarrow> js_builtins \<Rightarrow> (request, gql_data) remote
     \<Rightarrow> (string \<rightharpoonup> row list) \<Rightarrow> (string \<rightharpoonup> row list) \<Rightarrow> bool
     \<Rightarrow> (string \<times> row list) list \<Rightarrow> (request, sync_log) event list
     \<Rightarrow> (exn + unit) \<times> (request, sync_log) event list" where
  "syncAllProductsFromExcel cfg B client imagesByHandle metafieldsByHandle dryRun [] tr =
     (Inr (), tr)"
| "syncAllProductsFromExcel cfg B client imagesByHandle metafieldsByHandle dryRun
       ((handle, productRowsForHandle) # rest) tr =
     (let imagesForHandle = (case imagesByHandle handle of None \<Rightarrow> [] | Some xs \<Rightarrow> xs);
          metafieldsForHandle = (case metafieldsByHandle handle of None \<Rightarrow> [] | Some xs \<Rightarrow> xs)
      in case fetchProductByHandle B client handle tr of
           (Inl err, tr1) \<Rightarrow> (Inl err, tr1)
         | (Inr existingProduct, tr1) \<Rightarrow>
             (case buildProductSetInput B handle productRowsForHandle existingProduct
                     imagesForHandle metafieldsForHandle of
                Inl err \<Rightarrow> (Inl err, tr1)
              | Inr productInput \<Rightarrow>
                  if dryRun then
                    syncAllProductsFromExcel cfg B client imagesByHandle metafieldsByHandle
                      dryRun rest
                      (tr1 @ [Log (DryRunWouldUpsert handle
                                     (length (psi_variants productInput))
                                     (count (psi_files productInput))
                                     (count (psi_metafields productInput)))])
                  else
                    syncAllProductsFromExcel cfg B client imagesByHandle metafieldsByHandle
                      dryRun rest
                      (upsert_block cfg B client handle productRowsForHandle productInput tr1)))"

section \<open>Example inputs\<close>

text \<open>
  Finite tables standing in for the built-in conversions in the examples. They agree with
  JavaScript on the listed strings and numbers, and the examples convert no others.
\<close>

definition ex_parseFloat :: "string \<Rightarrow> js_num" where
  "ex_parseFloat s =
     (case map_of [(''0'', 0), (''2'', 2), (''5'', 5), (''-1'', -1), (''120'', 120)] s of
        None \<Rightarrow> NaN
      | Some r \<Rightarrow> Num r)"

definition ex_numberToString :: "real \<Rightarrow> string" where
  "ex_numberToString r =
     (case map_of [(0, ''0''), (7, ''7''), (10, ''10'')] r of None \<Rightarrow> [] | Some s \<Rightarrow> s)"

definition ex_builtins :: js_builtins where
  "ex_builtins =
     \<lparr>parseFloat = ex_parseFloat, stringToNumber = ex_parseFloat,
      numberToString = ex_numberToString\<rparr>"

text \<open>A remote that answers the first requests from a script, and then always the same.\<close>

definition scripted :: "'d post_result list \<Rightarrow> 'd post_result \<Rightarrow> ('q, 'd) remote" where
  "scripted rs r n q = (if n < length rs then rs ! n else r)"

definition cost_30_10 :: cost where
  "cost_30_10 =
     \<lparr>cost_requestedQueryCost = JNumber 12, cost_actualQueryCost = JNumber 10,
      cost_throttleStatus =
        Some \<lparr>ts_maximumAvailable = JNumber 1000, ts_currentlyAvailable = JNumber 30,
              ts_restoreRate = JNumber 10\<rparr>\<rparr>"

definition resp_low_credits :: "gql_data gql_response" where
  "resp_low_credits = \<lparr>resp_errors = None, resp_cost = Some cost_30_10, resp_data = None\<rparr>"

definition resp_throttled :: "gql_data gql_response" where
  "resp_throttled =
     \<lparr>resp_errors = Some [JObject [(''message'', JString ''Throttled'')]],
      resp_cost = Some cost_30_10, resp_data = None\<rparr>"

definition resp_no_cost :: "gql_data gql_response" where
  "resp_no_cost = \<lparr>resp_errors = None, resp_cost = None, resp_data = None\<rparr>"

definition err_http :: "int \<Rightarrow> (string \<times> string) list \<Rightarrow> exn" where
  "err_http code hs =
     AxiosError ''Request failed''
       (Some \<lparr>status = code, headers = Some hs, body = JUndefined\<rparr>)"

definition ex_config :: config where
  "ex_config =
     \<lparr>storeDomain = ''shop.example'', accessToken = ''token'', apiVersion = ''2025-10'',
      defaultLocationId = ''L1''\<rparr>"

definition row_S1 :: row where
  "row_S1 =
     [(''ProductTitle'', CString ''Shirt''), (''VariantSKU'', CString ''S1''),
      (''VariantTitle'', CString ''Small''), (''VariantPrice'', CNumber 7),
      (''VariantInventoryQuantity'', CNumber 10)]"

definition row_S2 :: row where
  "row_S2 =
     [(''ProductTitle'', CString ''Shirt''), (''VariantSKU'', CString ''S2''),
      (''VariantTitle'', CString ''Large''), (''VariantPrice'', CNumber 7),
      (''VariantInventoryQuantity'', CString [])]"

definition node_S1 :: variant_node where
  "node_S1 = \<lparr>v_id = ''V1'', v_sku = Some ''S1'', v_title = ''Small'',
              v_inventoryItem_id = Some ''I1''\<rparr>"

definition node_S2 :: variant_node where
  "node_S2 = \<lparr>v_id = ''V2'', v_sku = Some ''S2'', v_title = ''Large'',
              v_inventoryItem_id = Some ''I2''\<rparr>"

definition shirt :: "variant_node list \<Rightarrow> product" where
  "shirt nodes =
     \<lparr>p_id = ''P1'', p_handle = ''shirt-1'', p_title = ''Shirt'',
      p_variants_nodes = Some nodes\<rparr>"

definition resp_lookup :: "product option \<Rightarrow> gql_data gql_response" where
  "resp_lookup p =
     \<lparr>resp_errors = None, resp_cost = None,
      resp_data = Some \<lparr>productByHandle = p, productSet = None,
                        inventorySetQuantities = None\<rparr>\<rparr>"

definition resp_upsert :: "product_set_payload \<Rightarrow> gql_data gql_response" where
  "resp_upsert payload =
     \<lparr>resp_errors = None, resp_cost = None,
      resp_data = Some \<lparr>productByHandle = None, productSet = Some payload,
                        inventorySetQuantities = None\<rparr>\<rparr>"

text \<open>No image or metafield rows for any handle.\<close>

definition no_rows :: "string \<rightharpoonup> row list" where
  "no_rows handle = None"

section \<open>Notions used in the statements\<close>

text \<open>
  The credit envelope of a response is missing or malformed: there is no cost block, or
  \<open>currentlyAvailable\<close> or \<open>restoreRate\<close> is not a number (as when the block has no
  \<open>throttleStatus\<close>).
\<close>

definition envelope_missing_or_malformed :: "'d gql_response \<Rightarrow> bool" where
  "envelope_missing_or_malformed data =
     (case resp_cost data of
        None \<Rightarrow> True
      | Some c \<Rightarrow>
          (case cost_throttleStatus c of
             None \<Rightarrow> True
           | Some t \<Rightarrow>
               as_number (ts_currentlyAvailable t) = None \<or> as_number (ts_restoreRate t) = None))"

text \<open>
  The events of the first \<open>k\<close> retries of a call whose \<open>i\<close>-th request was rejected with
  the error \<open>e i\<close>: the request, then the wait computed from the backoff
  \<open>INITIAL_BACKOFF_MS * 2 ^ i\<close>.
\<close>

definition retry_events ::
  "js_builtins \<Rightarrow> 'q \<Rightarrow> (nat \<Rightarrow> exn) \<Rightarrow> nat \<Rightarrow> ('q, 'l) event list" where
  "retry_events B q e k =
     concat (map (\<lambda>i. [Post q, Sleep (retryAfterMs B (INITIAL_BACKOFF_MS * 2 ^ i) (e i))])
               [0..<k])"

section \<open>The executor: one iteration of the retry loop\<close>

lemma sent_append: "sent (tr @ tr') = sent tr + sent tr'"
  by (simp add: sent_def)

lemma sent_Nil: "sent [] = 0"
  by (simp add: sent_def)

lemma sent_Post: "sent [Post q] = 1"
  by (simp add: sent_def)

lemma sent_Post_Sleep: "sent [Post q, Sleep ms] = 1"
  by (simp add: sent_def)

lemma sent_Cons_Post: "sent (Post q # tr) = Suc (sent tr)"
  by (simp add: sent_def)

lemma sent_pacing: "sent (applyPreemptiveThrottleWait ti :: ('q, 'l) event list) = 0"
  by (simp add: applyPreemptiveThrottleWait_def sent_def Let_def split: option.splits)

lemma sent_retry_events: "sent (retry_events B q e k) = k"
  unfolding retry_events_def
  by (induction k) (simp_all add: sent_append sent_Post_Sleep sent_def)

lemma loop_retry:
  assumes "attempt < MAX_RETRIES"
    and "client (sent tr) q = Rejected err"
    and "status_of err = Some 429"
  shows "callShopifyGraphQL_loop B client q attempt backoffMs tr =
         callShopifyGraphQL_loop B client q (attempt + 1) (backoffMs * 2)
           (tr @ [Post q, Sleep (retryAfterMs B backoffMs err)])"
  using assms by (subst callShopifyGraphQL_loop.simps) simp

lemma loop_give_up:
  assumes "attempt = MAX_RETRIES"
    and "client (sent tr) q = Rejected err"
    and "status_of err = Some 429"
  shows "callShopifyGraphQL_loop B client q attempt backoffMs tr = (Inl err, tr @ [Post q])"
  using assms by (subst callShopifyGraphQL_loop.simps) simp

lemma loop_other_failure:
  assumes "attempt \<le> MAX_RETRIES"
    and "client (sent tr) q = Rejected err"
    and "status_of err \<noteq> Some 429"
  shows "callShopifyGraphQL_loop B client q attempt backoffMs tr = (Inl err, tr @ [Post q])"
  using assms by (subst callShopifyGraphQL_loop.simps) simp

lemma loop_errors:
  assumes "attempt \<le> MAX_RETRIES"
    and "client (sent tr) q = Resolved data"
    and "has_errors data"
  shows "callShopifyGraphQL_loop B client q attempt backoffMs tr = (Inr data, tr @ [Post q])"
  using assms by (subst callShopifyGraphQL_loop.simps) simp

lemma loop_ok:
  assumes "attempt \<le> MAX_RETRIES"
    and "client (sent tr) q = Resolved data"
    and "\<not> has_errors data"
  shows "callShopifyGraphQL_loop B client q attempt backoffMs tr =
         (Inr data, tr @ [Post q] @ applyPreemptiveThrottleWait (extractThrottleInfo data))"
  using assms by (subst callShopifyGraphQL_loop.simps) (simp add: applyPreemptiveThrottleWait_def split: option.splits)

lemma loop_retries:
  assumes "attempt + k \<le> MAX_RETRIES"
    and "\<forall>i<k. client (sent tr + i) q = Rejected (e i) \<and> status_of (e i) = Some 429"
  shows "callShopifyGraphQL_loop B client q attempt backoffMs tr =
         callShopifyGraphQL_loop B client q (attempt + k) (backoffMs * 2 ^ k)
           (tr @ concat (map (\<lambda>i. [Post q, Sleep (retryAfterMs B (backoffMs * 2 ^ i) (e i))]) [0..<k]))"
  using assms
proof (induction k)
  case 0
  then show ?case by simp
next
  case (Suc k)
  let ?tr = "tr @ concat (map (\<lambda>i. [Post q, Sleep (retryAfterMs B (backoffMs * 2 ^ i) (e i))]) [0..<k])"
  have s: "sent ?tr = sent tr + k"
    by (induction k) (simp_all add: sent_append sent_Post_Sleep sent_def)
  have "callShopifyGraphQL_loop B client q attempt backoffMs tr =
        callShopifyGraphQL_loop B client q (attempt + k) (backoffMs * 2 ^ k) ?tr"
    using Suc by simp
  also have "\<dots> = callShopifyGraphQL_loop B client q (attempt + k + 1) (backoffMs * 2 ^ k * 2)
        (?tr @ [Post q, Sleep (retryAfterMs B (backoffMs * 2 ^ k) (e k))])"
    using Suc.prems by (intro loop_retry) (simp_all add: s)
  finally show ?case by (simp add: mult_ac)
qed

lemma call_retries:
  assumes "k \<le> MAX_RETRIES"
    and "\<forall>i<k. client (sent tr + i) q = Rejected (e i) \<and> status_of (e i) = Some 429"
  shows "callShopifyGraphQL B client q tr =
         callShopifyGraphQL_loop B client q k (INITIAL_BACKOFF_MS * 2 ^ k)
           (tr @ retry_events B q e k)"
  unfolding callShopifyGraphQL_def retry_events_def
  using loop_retries [of 0 k client tr q e B INITIAL_BACKOFF_MS] assms by simp

lemma loop_sent_bound:
  "sent (snd (callShopifyGraphQL_loop B client q attempt backoffMs tr))
     \<le> sent tr + (MAX_RETRIES + 1 - attempt)"
proof (induction B client q attempt backoffMs tr rule: callShopifyGraphQL_loop.induct)
  case (1 B client q attempt backoffMs tr)
  show ?case
  proof (cases "attempt \<le> MAX_RETRIES")
    case False
    then show ?thesis by (subst callShopifyGraphQL_loop.simps) simp
  next
    case le: True
    show ?thesis
    proof (cases "client (sent tr) q")
      case (Resolved data)
      then show ?thesis using le
        by (cases "has_errors data")
           (auto simp: loop_errors loop_ok sent_append sent_Post sent_def applyPreemptiveThrottleWait_def Let_def
                 split: option.splits)
    next
      case (Rejected err)
      show ?thesis
      proof (cases "status_of err = Some 429")
        case False
        then show ?thesis using le Rejected by (simp add: loop_other_failure sent_append sent_Post)
      next
        case True
        show ?thesis
        proof (cases "attempt = MAX_RETRIES")
          case True
          then show ?thesis using Rejected \<open>status_of err = Some 429\<close>
            by (simp add: loop_give_up sent_append sent_Post)
        next
          case False
          then have lt: "attempt < MAX_RETRIES" using le by simp
          have "sent (snd (callShopifyGraphQL_loop B client q (attempt + 1) (backoffMs * 2)
                  (tr @ [Post q, Sleep (retryAfterMs B backoffMs err)])))
                \<le> sent (tr @ [Post q, Sleep (retryAfterMs B backoffMs err)]) + (MAX_RETRIES + 1 - (attempt + 1))"
            using "1.IH"[OF le Rejected True] lt by simp
          then show ?thesis using lt Rejected True
            by (simp add: loop_retry sent_append sent_Post_Sleep)
        qed
      qed
    qed
  qed
qed

lemma pacing_low:
  assumes "resp_cost data = Some c" and "cost_throttleStatus c = Some t"
    and "ts_currentlyAvailable t = JNumber ca" and "ts_restoreRate t = JNumber rr"
    and "ca < 50" and "rr > 0"
  shows "applyPreemptiveThrottleWait (extractThrottleInfo data) =
         [Sleep (real_of_int \<lceil>(2 * 50 - ca) / rr * 1000\<rceil>)]"
  using assms
  by (simp add: applyPreemptiveThrottleWait_def extractThrottleInfo_def
      LOW_CREDITS_THRESHOLD_def Let_def)


lemma pacing_malformed:
  assumes "envelope_missing_or_malformed data"
  shows "applyPreemptiveThrottleWait (extractThrottleInfo data) = []"
  using assms
  by (auto simp: applyPreemptiveThrottleWait_def extractThrottleInfo_def
      envelope_missing_or_malformed_def Let_def split: option.splits)

section \<open>Proactive pacing\<close>




text \<open>
  Claim C9. A response whose credit envelope is missing or malformed is returned
  normally, with no suspension after the request. The next call is paced as usual: when
  its response reports low credits, the executor suspends after that request.
\<close>

theorem missing_envelope_fails_open:
  assumes "attempt \<le> MAX_RETRIES"
    and "client (sent tr) q = Resolved data"
    and "envelope_missing_or_malformed data"
  shows "callShopifyGraphQL_loop B client q attempt backoffMs tr = (Inr data, tr @ [Post q])
       \<and> (client (sent tr + 1) q' = Resolved data' \<and> \<not> has_errors data'
            \<and> resp_cost data' = Some c \<and> cost_throttleStatus c = Some t
            \<and> ts_currentlyAvailable t = JNumber availableCredits
            \<and> ts_restoreRate t = JNumber restoreRatePerSecond
            \<and> availableCredits < 50 \<and> restoreRatePerSecond > 0 \<longrightarrow>
          callShopifyGraphQL B client q' (tr @ [Post q]) =
            (Inr data',
             tr @ [Post q, Post q',
                   Sleep (real_of_int
                     \<lceil>(2 * 50 - availableCredits) / restoreRatePerSecond * 1000\<rceil>)]))"
proof -
  have first: "callShopifyGraphQL_loop B client q attempt backoffMs tr = (Inr data, tr @ [Post q])"
  proof (cases "has_errors data")
    case True
    then show ?thesis using assms by (simp add: loop_errors)
  next
    case False
    then show ?thesis using assms by (simp add: loop_ok pacing_malformed)
  qed
  have "callShopifyGraphQL B client q' (tr @ [Post q]) =
          (Inr data',
           tr @ [Post q, Post q',
                 Sleep (real_of_int
                   \<lceil>(2 * 50 - availableCredits) / restoreRatePerSecond * 1000\<rceil>)])"
    if "client (sent tr + 1) q' = Resolved data'" "\<not> has_errors data'"
      "resp_cost data' = Some c" "cost_throttleStatus c = Some t"
      "ts_currentlyAvailable t = JNumber availableCredits"
      "ts_restoreRate t = JNumber restoreRatePerSecond"
      "availableCredits < 50" "restoreRatePerSecond > 0"
    unfolding callShopifyGraphQL_def using that
    by (simp add: loop_ok sent_append sent_Post pacing_low)
  with first show ?thesis by simp
qed

theorem missing_envelope_fails_open_witness:
  "callShopifyGraphQL ex_builtins
     (scripted [Resolved resp_no_cost] (Resolved resp_low_credits)) ''q1''
     ([] :: (string, unit) event list) = (Inr resp_no_cost, [Post ''q1''])
   \<and> callShopifyGraphQL ex_builtins
       (scripted [Resolved resp_no_cost] (Resolved resp_low_credits)) ''q2''
       ([Post ''q1''] :: (string, unit) event list) =
      (Inr resp_low_credits, [Post ''q1'', Post ''q2'', Sleep 7000])"
  using missing_envelope_fails_open [where attempt = 0
      and client = "scripted [Resolved resp_no_cost] (Resolved resp_low_credits)"
      and tr = "[] :: (string, unit) event list" and q = "''q1''" and data = resp_no_cost
      and q' = "''q2''" and data' = resp_low_credits and c = cost_30_10
      and t = "\<lparr>ts_maximumAvailable = JNumber 1000, ts_currentlyAvailable = JNumber 30,
                ts_restoreRate = JNumber 10\<rparr>"
      and availableCredits = 30 and restoreRatePerSecond = 10 and B = ex_builtins
      and backoffMs = INITIAL_BACKOFF_MS]
  by (simp add: callShopifyGraphQL_def scripted_def sent_def resp_no_cost_def
      resp_low_credits_def cost_30_10_def has_errors_def envelope_missing_or_malformed_def)

section \<open>Retry on rate-limit rejections\<close>

text \<open>
  Claim C2. A call never sends more than \<open>MAX_RETRIES + 1 = 6\<close> requests, that is, it
  retries at most 5 times. When the first request and each of the 5 retries is rejected
  with status 429, the call throws the rejection of the last request, unchanged, after 5
  waits, and sends nothing more.
\<close>

theorem retries_bounded_then_429_propagated:
  "sent (snd (callShopifyGraphQL B client q tr)) \<le> sent tr + MAX_RETRIES + 1
   \<and> ((\<forall>i\<le>MAX_RETRIES. client (sent tr + i) q = Rejected (e i)
                            \<and> status_of (e i) = Some 429) \<longrightarrow>
        callShopifyGraphQL B client q tr =
          (Inl (e MAX_RETRIES), tr @ retry_events B q e MAX_RETRIES @ [Post q])
        \<and> sent (snd (callShopifyGraphQL B client q tr)) = sent tr + MAX_RETRIES + 1)"
proof (intro conjI impI)
  show "sent (snd (callShopifyGraphQL B client q tr)) \<le> sent tr + MAX_RETRIES + 1"
    unfolding callShopifyGraphQL_def
    using loop_sent_bound [of B client q 0 INITIAL_BACKOFF_MS tr] by simp
next
  assume a: "\<forall>i\<le>MAX_RETRIES. client (sent tr + i) q = Rejected (e i)
                \<and> status_of (e i) = Some 429"
  let ?tr = "tr @ retry_events B q e MAX_RETRIES"
  have "callShopifyGraphQL B client q tr =
        callShopifyGraphQL_loop B client q MAX_RETRIES (INITIAL_BACKOFF_MS * 2 ^ MAX_RETRIES) ?tr"
    using a by (intro call_retries) simp_all
  also have "\<dots> = (Inl (e MAX_RETRIES), ?tr @ [Post q])"
    using a by (intro loop_give_up) (simp_all add: sent_append sent_retry_events)
  finally show r: "callShopifyGraphQL B client q tr =
      (Inl (e MAX_RETRIES), tr @ retry_events B q e MAX_RETRIES @ [Post q])"
    by simp
  show "sent (snd (callShopifyGraphQL B client q tr)) = sent tr + MAX_RETRIES + 1"
    by (simp add: r sent_append sent_retry_events sent_Post)
qed

theorem retries_bounded_then_429_propagated_witness:
  "callShopifyGraphQL ex_builtins
     (scripted [] (Rejected (err_http 429 [])) :: (string, gql_data) remote) ''q''
     ([] :: (string, unit) event list) =
   (Inl (err_http 429 []),
    [Post ''q'', Sleep 1000, Post ''q'', Sleep 2000, Post ''q'', Sleep 4000,
     Post ''q'', Sleep 8000, Post ''q'', Sleep 16000, Post ''q''])"
proof -
  let ?client = "scripted [] (Rejected (err_http 429 [])) :: (string, gql_data) remote"
  have h: "\<forall>i\<le>MAX_RETRIES. ?client (sent ([] :: (string, unit) event list) + i) ''q''
               = Rejected (err_http 429 []) \<and> status_of (err_http 429 []) = Some 429"
    by (simp add: scripted_def status_of_def err_http_def)
  have "retry_events ex_builtins ''q'' (\<lambda>i. err_http 429 []) MAX_RETRIES =
        ([Post ''q'', Sleep 1000, Post ''q'', Sleep 2000, Post ''q'', Sleep 4000,
          Post ''q'', Sleep 8000, Post ''q'', Sleep 16000] :: (string, unit) event list)"
    by (simp add: retry_events_def MAX_RETRIES_def INITIAL_BACKOFF_MS_def retryAfterMs_def
        retryAfterHeader_def err_http_def upt_rec)
  then show ?thesis
    using h retries_bounded_then_429_propagated [of ex_builtins ?client "''q''"
        "[] :: (string, unit) event list" "\<lambda>i. err_http 429 []"]
    by simp
qed





text \<open>
  Claim C5. At any iteration of the retry loop, a successful transport response with
  application-level errors is returned as it is after that one request, and a rejection
  whose status is not 429 (or that has no status: network error, timeout) is thrown after
  that one request. A further request is only ever sent after a rejection with status 429.
\<close>

theorem only_rate_limit_is_retried:
  assumes "attempt \<le> MAX_RETRIES"
  shows "(\<forall>data. client (sent tr) q = Resolved data \<and> has_errors data \<longrightarrow>
            callShopifyGraphQL_loop B client q attempt backoffMs tr = (Inr data, tr @ [Post q]))
       \<and> (\<forall>err. client (sent tr) q = Rejected err \<and> status_of err \<noteq> Some 429 \<longrightarrow>
            callShopifyGraphQL_loop B client q attempt backoffMs tr = (Inl err, tr @ [Post q]))
       \<and> (sent (snd (callShopifyGraphQL_loop B client q attempt backoffMs tr)) > sent tr + 1 \<longrightarrow>
            (\<exists>err. client (sent tr) q = Rejected err \<and> status_of err = Some 429))"
proof (intro conjI allI impI)
  fix data
  assume "client (sent tr) q = Resolved data \<and> has_errors data"
  then show "callShopifyGraphQL_loop B client q attempt backoffMs tr = (Inr data, tr @ [Post q])"
    using assms by (simp add: loop_errors)
next
  fix err
  assume "client (sent tr) q = Rejected err \<and> status_of err \<noteq> Some 429"
  then show "callShopifyGraphQL_loop B client q attempt backoffMs tr = (Inl err, tr @ [Post q])"
    using assms by (simp add: loop_other_failure)
next
  assume more: "sent (snd (callShopifyGraphQL_loop B client q attempt backoffMs tr)) > sent tr + 1"
  show "\<exists>err. client (sent tr) q = Rejected err \<and> status_of err = Some 429"
  proof (cases "client (sent tr) q")
    case (Resolved data)
    then have "sent (snd (callShopifyGraphQL_loop B client q attempt backoffMs tr)) = sent tr + 1"
      using assms
      by (cases "has_errors data")
         (simp_all add: loop_errors loop_ok sent_append sent_Post sent_Nil sent_Cons_Post sent_pacing)
    with more show ?thesis by simp
  next
    case (Rejected err)
    show ?thesis
    proof (cases "status_of err = Some 429")
      case True
      with Rejected show ?thesis by simp
    next
      case False
      then have "sent (snd (callShopifyGraphQL_loop B client q attempt backoffMs tr)) = sent tr + 1"
        using assms Rejected by (simp add: loop_other_failure sent_append sent_Post)
      with more show ?thesis by simp
    qed
  qed
qed

theorem only_rate_limit_is_retried_witness:
  "callShopifyGraphQL_loop ex_builtins (scripted [] (Resolved resp_throttled)) ''q'' 0 1000
     ([] :: (string, unit) event list) = (Inr resp_throttled, [Post ''q''])
   \<and> callShopifyGraphQL_loop ex_builtins
       (scripted [] (Rejected (err_http 500 [])) :: (string, gql_data) remote) ''q'' 0 1000
       ([] :: (string, unit) event list) = (Inl (err_http 500 []), [Post ''q''])"
proof -
  have a: "(0::nat) \<le> MAX_RETRIES" by simp
  show ?thesis
    using only_rate_limit_is_retried [OF a, of "scripted [] (Resolved resp_throttled)"
        "[] :: (string, unit) event list" "''q''" ex_builtins 1000]
      only_rate_limit_is_retried [OF a,
        of "scripted [] (Rejected (err_http 500 [])) :: (string, gql_data) remote"
        "[] :: (string, unit) event list" "''q''" ex_builtins 1000]
    by (simp add: scripted_def has_errors_def resp_throttled_def status_of_def err_http_def)
qed

section \<open>The upsert payload\<close>




lemma buildProductSetInput_counts:
  assumes "rows \<noteq> []"
  shows "\<exists>input. buildProductSetInput B handle rows existing images metafields = Inr input
           \<and> length (psi_variants input) = length rows
           \<and> count (psi_files input) = length (List.map_filter (fileInput B) images)
           \<and> count (psi_metafields input) = length metafields"
  using assms by (cases rows) (simp_all add: buildProductSetInput_def Let_def count_def)



lemma inventoryItemIdBySku_two:
  assumes "v_sku n1 = Some ''S1''" and "v_inventoryItem_id n1 = Some item" and "item \<noteq> []"
    and "v_sku n2 = Some ''S2''"
  shows "inventoryItemIdBySku [n1, n2] ''S1'' = Some item"
  using assms by (simp add: inventoryItemIdBySku_def split: option.splits)

lemma trim_S1: "trim ''S1'' = ''S1''" and trim_S2: "trim ''S2'' = ''S2''"
  by (simp_all add: trim_def is_space_def)

section \<open>Traces of the gateway calls\<close>

lemmas run_defs =
  fetchProductByHandle_def setInventoryQuantities_def callShopifyGraphQL_def
  callShopifyGraphQL_loop.simps scripted_def sent_def MAX_RETRIES_def INITIAL_BACKOFF_MS_def
  has_errors_def extractThrottleInfo_def status_of_def retryAfterMs_def retryAfterHeader_def
  err_http_def resp_lookup_def resp_upsert_def no_rows_def


lemma requests_pacing: "requests (applyPreemptiveThrottleWait ti :: ('q, 'l) event list) = []"
  by (simp add: applyPreemptiveThrottleWait_def Let_def split: option.splits)


lemma loop_requests:
  "\<exists>r ev. callShopifyGraphQL_loop B client q attempt backoffMs tr = (r, tr @ ev)
          \<and> set (requests ev) \<subseteq> {q} \<and> (attempt \<le> MAX_RETRIES \<longrightarrow> requests ev \<noteq> [])"
proof (induction B client q attempt backoffMs tr rule: callShopifyGraphQL_loop.induct)
  case (1 B client q attempt backoffMs tr)
  show ?case
  proof (cases "attempt \<le> MAX_RETRIES")
    case False
    then show ?thesis by (subst callShopifyGraphQL_loop.simps) simp
  next
    case le: True
    show ?thesis
    proof (cases "client (sent tr) q")
      case (Resolved data)
      then show ?thesis using le
        by (cases "has_errors data") (simp_all add: loop_errors loop_ok requests_pacing)
    next
      case (Rejected err)
      show ?thesis
      proof (cases "status_of err = Some 429")
        case False
        then show ?thesis using le Rejected by (simp add: loop_other_failure)
      next
        case True
        show ?thesis
        proof (cases "attempt = MAX_RETRIES")
          case True
          then show ?thesis using Rejected \<open>status_of err = Some 429\<close>
            by (simp add: loop_give_up)
        next
          case False
          then have lt: "attempt < MAX_RETRIES" using le by simp
          let ?tr = "tr @ [Post q, Sleep (retryAfterMs B backoffMs err)]"
          obtain r ev where
            "callShopifyGraphQL_loop B client q (attempt + 1) (backoffMs * 2) ?tr = (r, ?tr @ ev)"
            and "set (requests ev) \<subseteq> {q}"
            using "1.IH"[OF le Rejected True] lt by auto
          then have "callShopifyGraphQL_loop B client q attempt backoffMs tr =
                (r, tr @ ([Post q, Sleep (retryAfterMs B backoffMs err)] @ ev))
              \<and> set (requests ([Post q, Sleep (retryAfterMs B backoffMs err)] @ ev)) \<subseteq> {q}
              \<and> requests ([Post q, Sleep (retryAfterMs B backoffMs err)] @ ev) \<noteq> []"
            using lt Rejected True by (simp add: loop_retry)
          then show ?thesis by blast
        qed
      qed
    qed
  qed
qed

lemma call_requests:
  "\<exists>r ev. callShopifyGraphQL B client q tr = (r, tr @ ev)
          \<and> set (requests ev) = {q} \<and> requests ev \<noteq> []"
proof -
  obtain r ev where "callShopifyGraphQL_loop B client q 0 INITIAL_BACKOFF_MS tr = (r, tr @ ev)"
    and "set (requests ev) \<subseteq> {q}" and "requests ev \<noteq> []"
    using loop_requests [of B client q 0 INITIAL_BACKOFF_MS tr] by auto
  moreover from this have "set (requests ev) = {q}"
    by (cases "requests ev") auto
  ultimately show ?thesis by (auto simp: callShopifyGraphQL_def)
qed




section \<open>Inventory after the upsert\<close>

text \<open>
  Claim C8. Two rows for the key \<open>shirt-1\<close>, with SKU \<open>S1\<close> and quantity 10 and with SKU \<open>S2\<close>
  and a blank quantity (their other columns arbitrary), and an existing entity whose one
  variant has SKU \<open>S1\<close> and identifier \<open>V1\<close>: the variants of the payload are, in order, one
  with id \<open>V1\<close> and SKU \<open>S1\<close> and one without id and with SKU \<open>S2\<close>. After the upsert, when
  the entity fetched again has the two variants and an inventory item for \<open>S1\<close>, every
  request the inventory synchronisation sends after that lookup (there is at least one) is
  the inventory write with exactly one quantity line: the item of \<open>S1\<close>, the configured
  location, quantity 10.
\<close>

theorem shirt_example_payload_and_inventory:
  assumes "cell_of r1 ''VariantSKU'' = CString ''S1''"
    and "cell_of r1 ''VariantInventoryQuantity'' = CNumber 10"
    and "cell_of r2 ''VariantSKU'' = CString ''S2''"
    and "cell_of r2 ''VariantInventoryQuantity'' = CString []"
    and "p_variants_nodes existing = Some [v]" and "v_sku v = Some ''S1''" and "v_id v = ''V1''"
    and "defaultLocationId cfg \<noteq> []"
    and "fetchProductByHandle B client ''shirt-1'' tr = (Inr (Some refetched), tr1)"
    and "p_variants_nodes refetched = Some [n1, n2]"
    and "v_sku n1 = Some ''S1''" and "v_inventoryItem_id n1 = Some item" and "item \<noteq> []"
    and "v_sku n2 = Some ''S2''"
  shows "(\<exists>input. buildProductSetInput B ''shirt-1'' [r1, r2] (Some existing) images metafields
                    = Inr input
            \<and> map (\<lambda>x. (vi_id x, vi_sku x)) (psi_variants input) =
                [(Some ''V1'', Some ''S1''), (None, Some ''S2'')])
       \<and> (\<exists>r ev. syncInventoryForProduct cfg B client ''shirt-1'' [r1, r2] tr = (r, tr1 @ ev)
            \<and> requests ev \<noteq> []
            \<and> set (requests ev) =
                {INVENTORY_SET_QUANTITIES_MUTATION
                   \<lparr>isi_name = ''available'', isi_reason = ''correction'',
                    isi_ignoreCompareQuantity = True,
                    isi_quantities =
                      [\<lparr>ql_inventoryItemId = item, ql_locationId = defaultLocationId cfg,
                        ql_quantity = 10\<rparr>]\<rparr>})"
proof (intro conjI)
  have look1: "existingVariantsBySku (Some existing) ''S1'' = Some v"
    and look2: "existingVariantsBySku (Some existing) ''S2'' = None"
    using assms(5,6) by (simp_all add: existingVariantsBySku_def)
  show "\<exists>input. buildProductSetInput B ''shirt-1'' [r1, r2] (Some existing) images metafields
                    = Inr input
            \<and> map (\<lambda>x. (vi_id x, vi_sku x)) (psi_variants input) =
                [(Some ''V1'', Some ''S1''), (None, Some ''S2'')]"
    using assms(1,3,7) look1 look2
    by (simp add: buildProductSetInput_def Let_def variantInput_def String_or_empty_def
        trim_S1 trim_S2 or_undefined_def)
next
  let ?input = "\<lparr>isi_name = ''available'', isi_reason = ''correction'',
                 isi_ignoreCompareQuantity = True,
                 isi_quantities =
                   [\<lparr>ql_inventoryItemId = item, ql_locationId = defaultLocationId cfg,
                     ql_quantity = 10\<rparr>]\<rparr>"
  have m: "inventoryItemIdBySku [n1, n2] ''S1'' = Some item"
    using assms(11-14) by (rule inventoryItemIdBySku_two)
  have q1: "quantityLine cfg B (inventoryItemIdBySku [n1, n2]) r1 =
              Some \<lparr>ql_inventoryItemId = item, ql_locationId = defaultLocationId cfg,
                    ql_quantity = 10\<rparr>"
    using assms(1,2) m
    by (simp add: quantityLine_def Let_def String_or_empty_def trim_S1 filled_def)
  have q2: "quantityLine cfg B (inventoryItemIdBySku [n1, n2]) r2 = None"
    using assms(3,4)
    by (simp add: quantityLine_def Let_def String_or_empty_def trim_S2 filled_def)
  have qs: "List.map_filter (quantityLine cfg B (inventoryItemIdBySku [n1, n2])) [r1, r2] =
              [\<lparr>ql_inventoryItemId = item, ql_locationId = defaultLocationId cfg,
                ql_quantity = 10\<rparr>]"
    by (simp add: q1 q2)
  obtain r ev where c: "callShopifyGraphQL B client (INVENTORY_SET_QUANTITIES_MUTATION ?input) tr1
        = (r, tr1 @ ev)"
    and rq: "set (requests ev) = {INVENTORY_SET_QUANTITIES_MUTATION ?input}" "requests ev \<noteq> []"
    using call_requests [of B client "INVENTORY_SET_QUANTITIES_MUTATION ?input" tr1] by blast
  have "\<exists>r'. syncInventoryForProduct cfg B client ''shirt-1'' [r1, r2] tr = (r', tr1 @ ev)"
    using assms(8,9,10) qs c
    by (cases r) (simp_all add: syncInventoryForProduct_def setInventoryQuantities_def Let_def)
  then show "\<exists>r ev. syncInventoryForProduct cfg B client ''shirt-1'' [r1, r2] tr = (r, tr1 @ ev)
            \<and> requests ev \<noteq> []
            \<and> set (requests ev) = {INVENTORY_SET_QUANTITIES_MUTATION ?input}"
    using rq by blast
qed

theorem shirt_example_payload_and_inventory_witness:
  "(\<exists>input. buildProductSetInput ex_builtins ''shirt-1'' [row_S1, row_S2]
               (Some (shirt [node_S1])) [] [] = Inr input
       \<and> map (\<lambda>x. (vi_id x, vi_sku x)) (psi_variants input) =
           [(Some ''V1'', Some ''S1''), (None, Some ''S2'')])
   \<and> (\<exists>r ev. syncInventoryForProduct ex_config ex_builtins
               (scripted [] (Resolved (resp_lookup (Some (shirt [node_S1, node_S2])))))
               ''shirt-1'' [row_S1, row_S2] ([] :: (request, sync_log) event list) =
             (r, [Post (PRODUCT_BY_HANDLE_QUERY ''shirt-1'')] @ ev)
       \<and> requests ev \<noteq> []
       \<and> set (requests ev) =
           {INVENTORY_SET_QUANTITIES_MUTATION
              \<lparr>isi_name = ''available'', isi_reason = ''correction'',
               isi_ignoreCompareQuantity = True,
               isi_quantities =
                 [\<lparr>ql_inventoryItemId = ''I1'', ql_locationId = ''L1'',
                   ql_quantity = 10\<rparr>]\<rparr>})"
proof -
  let ?client = "scripted [] (Resolved (resp_lookup (Some (shirt [node_S1, node_S2]))))
                   :: (request, gql_data) remote"
  have r1: "cell_of row_S1 ''VariantSKU'' = CString ''S1''"
    "cell_of row_S1 ''VariantInventoryQuantity'' = CNumber 10"
    by (simp_all add: row_S1_def cell_of_def)
  have r2: "cell_of row_S2 ''VariantSKU'' = CString ''S2''"
    "cell_of row_S2 ''VariantInventoryQuantity'' = CString []"
    by (simp_all add: row_S2_def cell_of_def)
  have ex: "p_variants_nodes (shirt [node_S1]) = Some [node_S1]" "v_sku node_S1 = Some ''S1''"
    "v_id node_S1 = ''V1''"
    by (simp_all add: shirt_def node_S1_def)
  have loc: "defaultLocationId ex_config \<noteq> []"
    by (simp add: ex_config_def)
  have fetch: "fetchProductByHandle ex_builtins ?client ''shirt-1''
        ([] :: (request, sync_log) event list) =
      (Inr (Some (shirt [node_S1, node_S2])), [Post (PRODUCT_BY_HANDLE_QUERY ''shirt-1'')])"
    by (simp add: run_defs)
  have nodes: "p_variants_nodes (shirt [node_S1, node_S2]) = Some [node_S1, node_S2]"
    "v_sku node_S1 = Some ''S1''" "v_inventoryItem_id node_S1 = Some ''I1''" "''I1'' \<noteq> []"
    "v_sku node_S2 = Some ''S2''"
    by (simp_all add: shirt_def node_S1_def node_S2_def)
  show ?thesis
    using shirt_example_payload_and_inventory [OF r1 r2 ex loc fetch nodes, of "[]" "[]"]
    by (simp add: ex_config_def)
qed

section \<open>The pass over the grouping keys\<close>

text \<open>
  What happens inside the \<open>try\<close> block stays inside: user errors of the upsert are
  reported and no inventory synchronisation follows; a transport failure of the upsert is
  caught and reported; either way the pass goes on with the next key.
\<close>

lemma upsert_user_errors_no_inventory_sync:
  assumes "callShopifyGraphQL B client (PRODUCT_SET_MUTATION handle productInput) tr =
             (Inr data, tr1)"
    and "resp_data data = Some d" and "productSet d = Some payload"
    and "ps_userErrors payload = Some userErrors" and "userErrors \<noteq> []"
  shows "upsert_block cfg B client handle rows productInput tr =
           tr1 @ [Log (UserErrors handle userErrors)]"
  using assms by (simp add: upsert_block_def Let_def)

lemma upsert_transport_failure_is_caught:
  assumes "callShopifyGraphQL B client (PRODUCT_SET_MUTATION handle productInput) tr =
             (Inl e, tr1)"
  shows "upsert_block cfg B client handle rows productInput tr =
           tr1 @ [Log (FailedToUpsert handle (message e))]"
  using assms by (simp add: upsert_block_def)

lemma live_step_continues:
  assumes "fetchProductByHandle B client handle tr = (Inr existing, tr1)"
    and "buildProductSetInput B handle rows existing
           (case imagesByHandle handle of None \<Rightarrow> [] | Some xs \<Rightarrow> xs)
           (case metafieldsByHandle handle of None \<Rightarrow> [] | Some xs \<Rightarrow> xs) = Inr productInput"
  shows "syncAllProductsFromExcel cfg B client imagesByHandle metafieldsByHandle False
           ((handle, rows) # rest) tr =
         syncAllProductsFromExcel cfg B client imagesByHandle metafieldsByHandle False rest
           (upsert_block cfg B client handle rows productInput tr1)"
  using assms by (simp add: Let_def)

text \<open>
  The lookup before the \<open>try\<close> block is not covered by it: when it throws, the error
  leaves the loop, and the keys that follow are not processed.
\<close>

lemma lookup_failure_leaves_the_loop:
  assumes "fetchProductByHandle B client handle tr = (Inl err, tr1)"
  shows "syncAllProductsFromExcel cfg B client imagesByHandle metafieldsByHandle dryRun
           ((handle, rows) # rest) tr = (Inl err, tr1)"
  using assms by (simp add: Let_def)

text \<open>
  An example in live mode: the upsert of \<open>shirt-1\<close> comes back with a user error, which
  is reported; no inventory request follows, and the pass goes on to \<open>shirt-2\<close>.
\<close>

lemma user_errors_example:
  "syncAllProductsFromExcel ex_config ex_builtins
     (scripted [Resolved (resp_lookup None),
                Resolved (resp_upsert \<lparr>ps_product = None,
                   ps_userErrors = Some [JObject [(''message'', JString ''Title is blank'')]]\<rparr>)]
        (Resolved (resp_lookup None))) no_rows no_rows False
     [(''shirt-1'', [row_S1]), (''shirt-2'', [row_S1])] [] =
   (Inr (),
    [Post (PRODUCT_BY_HANDLE_QUERY ''shirt-1''),
     Post (PRODUCT_SET_MUTATION ''shirt-1''
       (projr (buildProductSetInput ex_builtins ''shirt-1'' [row_S1] None [] []))),
     Log (UserErrors ''shirt-1'' [JObject [(''message'', JString ''Title is blank'')]]),
     Post (PRODUCT_BY_HANDLE_QUERY ''shirt-2''),
     Post (PRODUCT_SET_MUTATION ''shirt-2''
       (projr (buildProductSetInput ex_builtins ''shirt-2'' [row_S1] None [] []))),
     Log (NoPayload ''shirt-2'')])"
proof -
  obtain input1 where b1:
    "buildProductSetInput ex_builtins ''shirt-1'' [row_S1] None [] [] = Inr input1"
    using buildProductSetInput_counts [of "[row_S1]" ex_builtins "''shirt-1''" None "[]" "[]"]
    by auto
  obtain input2 where b2:
    "buildProductSetInput ex_builtins ''shirt-2'' [row_S1] None [] [] = Inr input2"
    using buildProductSetInput_counts [of "[row_S1]" ex_builtins "''shirt-2''" None "[]" "[]"]
    by auto
  show ?thesis
    by (simp add: run_defs upsert_block_def b1 b2 Let_def)
qed

text \<open>
  Claim C7, on a failing input. Two grouping keys, live mode; the remote rejects the
  first request (the lookup of \<open>shirt-1\<close>) with status 500 and would answer every later
  request. The pass ends with that error after the one request: \<open>shirt-2\<close> is never
  looked up or upserted.
\<close>

theorem lookup_failure_aborts_the_pass:
  "syncAllProductsFromExcel ex_config ex_builtins
     (scripted [Rejected (err_http 500 [])] (Resolved (resp_lookup None))) no_rows no_rows False
     [(''shirt-1'', [row_S1, row_S2]), (''shirt-2'', [row_S1])] [] =
   (Inl (err_http 500 []), [Post (PRODUCT_BY_HANDLE_QUERY ''shirt-1'')])"
  by (simp add: run_defs)







end
